theory Spec2Isabelle
  imports Main
begin

section \<open>The Deep Lake vector-store adapter (dotagent/vectorstores/deeplake.py)\<close>

text \<open>
  The class \<^verbatim>\<open>DeepLake\<close> wraps the external \<^verbatim>\<open>DeepLakeVectorStore\<close>. The external
  library (deeplake and numpy) is a parameter of every operation; the adapter's own
  control flow is embedded as written. Every operation threads a world: the state of
  the external engine and the list of calls made on it so far. An exception is the
  \<open>Inl\<close> branch of the result; the world is returned with it, since an exception does
  not undo what the engine has already done.
\<close>

subsection \<open>Errors\<close>

text \<open>
  The adapter raises only \<^verbatim>\<open>ValueError\<close>, told apart by the message. Each constructor of
  \<open>value_error\<close> is one message of the source:
  \<^item> \<open>CouldNotImportDeeplake\<close>: "Could not import deeplake python package. ..."
  \<^item> \<open>DeeplakeVersionTooOld\<close>: "deeplake version should be >= 3.6.3, but ..."
  \<^item> \<open>ScoresWithTql\<close>: "scores can't be returned with tql search"
  \<^item> \<open>EmbeddingOrFunctionNeeded\<close>: "Either `embedding` or `embedding_function` needs to
    be specified."
  \<^item> \<open>QueryOrEmbeddingNotBoth\<close>: "You must provide either query embeddings or query
    texts, but not both"
  \<^item> \<open>EmbeddingParamDeprecated\<close>: "using embedding as embedidng_functions is
    deprecated. ..."
  \<^item> \<open>InhomogeneousShape\<close>: the \<^verbatim>\<open>ValueError\<close> of \<^verbatim>\<open>np.array(..., dtype=np.float32)\<close> on
    rows of different lengths.
  \<open>NameError\<close> and \<open>AttributeError\<close> are the interpreter's own; \<open>EngineError\<close> is any
  exception that comes out of a call into the engine.
\<close>

datatype value_error =
    CouldNotImportDeeplake
  | DeeplakeVersionTooOld
  | ScoresWithTql
  | EmbeddingOrFunctionNeeded
  | QueryOrEmbeddingNotBoth
  | EmbeddingParamDeprecated
  | InhomogeneousShape

datatype error =
    ValueError value_error
  | NameError string
  | AttributeError string
  | EngineError string

text \<open>
  The names under which the specification files these errors (its section 7):
  configuration errors, invalid arguments (mutually exclusive arguments, missing
  embedding source) and unsupported operations.
\<close>

datatype error_kind = ConfigurationError | InvalidArgumentError | UnsupportedOperationError

fun spec_error_kind :: "error \<Rightarrow> error_kind option" where
  "spec_error_kind (ValueError CouldNotImportDeeplake) = Some ConfigurationError"
| "spec_error_kind (ValueError DeeplakeVersionTooOld) = Some ConfigurationError"
| "spec_error_kind (ValueError EmbeddingParamDeprecated) = Some ConfigurationError"
| "spec_error_kind (ValueError QueryOrEmbeddingNotBoth) = Some InvalidArgumentError"
| "spec_error_kind (ValueError EmbeddingOrFunctionNeeded) = Some InvalidArgumentError"
| "spec_error_kind (ValueError ScoresWithTql) = Some UnsupportedOperationError"
| "spec_error_kind _ = None"

subsection \<open>Data\<close>

text \<open>
  \<open>'f\<close> is the type of a float; the adapter never computes with one. An embedding
  argument is a flat Python list, a list of lists (an accidental batch dimension), or
  an object that is not a list (a numpy array), given by its entries.
\<close>

datatype 'f py_embedding =
    PyList "'f list"
  | PyListOfLists "'f list list"
  | NdArray "'f list"

text \<open>The \<^verbatim>\<open>Embeddings\<close> interface: the two operations of an embedding provider.\<close>

record 'f embeddings =
  embed_query :: "string \<Rightarrow> 'f py_embedding"
  embed_documents :: "string list \<Rightarrow> 'f list list"

text \<open>
  The values a free keyword argument can hold. \<open>PyEmbedDocuments p\<close> is the bound method
  \<^verbatim>\<open>p.embed_documents\<close>.
\<close>

datatype 'f pyobj =
    PyNone
  | PyBool bool
  | PyInt int
  | PyStr string
  | PyStrList "string list"
  | PyEmbeddings "'f embeddings"
  | PyEmbedDocuments "'f embeddings"
  | PyCallable "string \<Rightarrow> 'f py_embedding"

text \<open>Python's truth value of an object, as \<^verbatim>\<open>if x:\<close> and \<^verbatim>\<open>x or y\<close> test it.\<close>

fun py_truthy :: "'f pyobj \<Rightarrow> bool" where
  "py_truthy PyNone = False"
| "py_truthy (PyBool b) = b"
| "py_truthy (PyInt i) = (i \<noteq> 0)"
| "py_truthy (PyStr s) = (s \<noteq> [])"
| "py_truthy (PyStrList xs) = (xs \<noteq> [])"
| "py_truthy (PyEmbeddings p) = True"
| "py_truthy (PyEmbedDocuments p) = True"
| "py_truthy (PyCallable f) = True"

type_synonym 'f kwargs = "string \<rightharpoonup> 'f pyobj"

text \<open>\<^verbatim>\<open>kwargs.get(key)\<close>: the value, or \<^verbatim>\<open>None\<close> for a missing key.\<close>

definition kwargs_get :: "'f kwargs \<Rightarrow> string \<Rightarrow> 'f pyobj" where
  "kwargs_get kwargs key = (case kwargs key of None \<Rightarrow> PyNone | Some v \<Rightarrow> v)"

text \<open>
  The argument \<^verbatim>\<open>texts\<close> is an \<^verbatim>\<open>Iterable[str]\<close>: a list, which can be iterated again
  and again, or a one-shot iterator (a generator), given by the items it has yet to
  yield. \<^verbatim>\<open>list(texts)\<close> returns the items and leaves a list as it was and an iterator
  exhausted. \<open>texts_items\<close> is what the next iteration over the object yields.
\<close>

datatype py_texts =
    TextList "string list"
  | TextIter "string list"

fun py_list :: "py_texts \<Rightarrow> string list \<times> py_texts" where
  "py_list (TextList xs) = (xs, TextList xs)"
| "py_list (TextIter xs) = (xs, TextIter [])"

fun texts_items :: "py_texts \<Rightarrow> string list" where
  "texts_items (TextList xs) = xs"
| "texts_items (TextIter xs) = xs"

text \<open>A metadata mapping (string to any value) and the \<^verbatim>\<open>Document\<close> of dotagent.schema.\<close>

datatype 'f meta_value =
    MNone
  | MBool bool
  | MInt int
  | MStr string
  | MVector "'f list"

type_synonym 'f metadata = "string \<rightharpoonup> 'f meta_value"

record 'f document =
  page_content :: string
  metadata :: "'f metadata"

text \<open>A filter is passed through to the engine unread: a mapping or a callable.\<close>

datatype filter_arg =
    FilterDict "(string \<times> (string \<times> string) list) list"
  | FilterCallable string

subsection \<open>The external engine\<close>

text \<open>The keyword arguments of \<^verbatim>\<open>DeepLakeVectorStore(...)\<close>; they also identify the handle.\<close>

record 'f open_args =
  o_path :: string
  o_embedding_function :: "'f embeddings option"
  o_read_only :: bool
  o_token :: "string option"
  o_exec_option :: string
  o_verbose :: bool
  o_kwargs :: "'f kwargs"

text \<open>The keyword arguments of \<^verbatim>\<open>vectorstore.add(...)\<close>.\<close>

record 'f add_args =
  a_text :: py_texts
  a_metadata :: "'f metadata list"
  a_embedding_data :: py_texts
  a_embedding_tensor :: string
  a_embedding_function :: "'f pyobj"
  a_return_ids :: bool
  a_kwargs :: "'f kwargs"

text \<open>
  The two shapes in which \<^verbatim>\<open>vectorstore.search(...)\<close> is called:
  \<open>TqlSearch query exec_option\<close> and
  \<open>EmbeddingSearch embedding k distance_metric filter exec_option return_tensors\<close>.
\<close>

datatype 'f search_args =
    TqlSearch "'f pyobj" "string option"
  | EmbeddingSearch "'f py_embedding option" int string "filter_arg option"
      "string option" "string list"

text \<open>The keyword \<^verbatim>\<open>embedding\<close> of a search call; \<open>None\<close> also when it is not passed.\<close>

fun search_embedding :: "'f search_args \<Rightarrow> 'f py_embedding option" where
  "search_embedding (TqlSearch query exec_option) = None"
| "search_embedding (EmbeddingSearch embedding k distance_metric filter' exec_option
     return_tensors) = embedding"

text \<open>The mapping a search returns, by its four keys; the rows are columns of lists.\<close>

record 'f search_result =
  r_score :: "'f list"
  r_embedding :: "'f list list"
  r_metadata :: "'f metadata list"
  r_text :: "string list"

text \<open>
  The external modules, over an engine state \<open>'s\<close>. \<open>deeplake_installed\<close> is the
  module flag \<^verbatim>\<open>_DEEPLAKE_INSTALLED\<close>; \<open>version_compare\<close> is the value of
  \<^verbatim>\<open>version_compare(deeplake.__version__, "3.6.2")\<close>; \<open>np_float32\<close> is numpy's
  conversion of one entry to \<^verbatim>\<open>float32\<close>. A call into the engine returns a result or
  the message of the exception it raised, and the next engine state.
\<close>

record ('s, 'f) backend =
  deeplake_installed :: bool
  version_compare :: int
  vs_open :: "'f open_args \<Rightarrow> 's \<Rightarrow> (string + unit) \<times> 's"
  vs_tensors :: "'f open_args \<Rightarrow> 's \<Rightarrow> string list"
  vs_add :: "'f open_args \<Rightarrow> 'f add_args \<Rightarrow> 's \<Rightarrow> (string + string list) \<times> 's"
  vs_search :: "'f open_args \<Rightarrow> 'f search_args \<Rightarrow> 's \<Rightarrow> (string + 'f search_result) \<times> 's"
  np_float32 :: "'f \<Rightarrow> 'f"

datatype 'f engine_call =
    Open "'f open_args"
  | Tensors
  | Add "'f add_args"
  | Search "'f search_args"

record ('s, 'f) world =
  w_engine :: 's
  w_calls :: "'f engine_call list"

text \<open>A call into the engine: run it on the engine state and append it to the log.\<close>

definition engine_call ::
  "'f engine_call \<Rightarrow> ('s \<Rightarrow> (string + 'a) \<times> 's) \<Rightarrow> ('s, 'f) world
     \<Rightarrow> (error + 'a) \<times> ('s, 'f) world" where
  "engine_call c f w =
     (case f (w_engine w) of
        (Inl msg, s') \<Rightarrow> (Inl (EngineError msg), \<lparr>w_engine = s', w_calls = w_calls w @ [c]\<rparr>)
      | (Inr v, s') \<Rightarrow> (Inr v, \<lparr>w_engine = s', w_calls = w_calls w @ [c]\<rparr>))"

subsection \<open>The adapter object and its construction\<close>

text \<open>
  The attributes of a \<^verbatim>\<open>DeepLake\<close> instance. \<open>self_embedding_function\<close> and
  \<open>self_id_tensor_name\<close> are the attributes \<^verbatim>\<open>_embedding_function\<close> and
  \<^verbatim>\<open>_id_tensor_name\<close>.
\<close>

record 'f deeplake =
  ingestion_batch_size :: int
  num_workers :: int
  verbose :: bool
  dataset_path :: string
  vectorstore :: "'f open_args"
  self_embedding_function :: "'f embeddings option"
  self_id_tensor_name :: string

definition DEFAULT_DATASET_PATH :: string where
  "DEFAULT_DATASET_PATH = ''./deeplake/''"

text \<open>\<^verbatim>\<open>__init__\<close>, with every parameter given (the caller fills in the defaults).\<close>

definition init ::
  "('s, 'f) backend \<Rightarrow> string \<Rightarrow> string option \<Rightarrow> 'f embeddings option \<Rightarrow> bool \<Rightarrow> int \<Rightarrow> int
     \<Rightarrow> bool \<Rightarrow> string \<Rightarrow> 'f kwargs \<Rightarrow> ('s, 'f) world
     \<Rightarrow> (error + 'f deeplake) \<times> ('s, 'f) world" where
  "init L dataset_path' token embedding_function read_only ingestion_batch_size' num_workers'
        verbose' exec_option kwargs w =
     (if \<not> deeplake_installed L then (Inl (ValueError CouldNotImportDeeplake), w)
      else if version_compare L = - 1 then (Inl (ValueError DeeplakeVersionTooOld), w)
      else
        let args = \<lparr>o_path = dataset_path', o_embedding_function = embedding_function,
                     o_read_only = read_only, o_token = token, o_exec_option = exec_option,
                     o_verbose = verbose', o_kwargs = kwargs\<rparr>
        in case engine_call (Open args) (vs_open L args) w of
             (Inl e, w1) \<Rightarrow> (Inl e, w1)
           | (Inr u, w1) \<Rightarrow>
               let names = vs_tensors L args (w_engine w1);
                   w2 = w1\<lparr>w_calls := w_calls w1 @ [Tensors]\<rparr>
               in (Inr \<lparr>ingestion_batch_size = ingestion_batch_size',
                        num_workers = num_workers',
                        verbose = verbose',
                        dataset_path = dataset_path',
                        vectorstore = args,
                        self_embedding_function = embedding_function,
                        self_id_tensor_name = (if ''ids'' \<in> set names then ''ids'' else ''id'')\<rparr>,
                   w2))"

subsection \<open>add_texts\<close>

text \<open>
  \<^verbatim>\<open>add_texts(self, texts, metadatas=None, ids=None, **kwargs)\<close>.
  The first statement rebinds \<^verbatim>\<open>kwargs\<close> to an empty mapping; \<^verbatim>\<open>if ids:\<close> holds for a
  non-empty list. The argument \<^verbatim>\<open>embedding_function\<close> of the engine call is
  \<^verbatim>\<open>kwargs.get("embedding_function") or self._embedding_function.embed_documents\<close>;
  reading \<^verbatim>\<open>embed_documents\<close> off \<^verbatim>\<open>None\<close> raises \<^verbatim>\<open>AttributeError\<close> before the call.
  When \<^verbatim>\<open>metadatas\<close> is \<^verbatim>\<open>None\<close>, \<^verbatim>\<open>len(list(texts))\<close> runs through \<^verbatim>\<open>texts\<close> once;
  \<open>texts1\<close> is the object \<^verbatim>\<open>texts\<close> as it is afterwards, when it is handed to the engine
  as \<^verbatim>\<open>text\<close> and as \<^verbatim>\<open>embedding_data\<close>.
\<close>

definition add_texts ::
  "('s, 'f) backend \<Rightarrow> 'f deeplake \<Rightarrow> py_texts \<Rightarrow> 'f metadata list option
     \<Rightarrow> string list option \<Rightarrow> 'f kwargs \<Rightarrow> ('s, 'f) world
     \<Rightarrow> (error + string list) \<times> ('s, 'f) world" where
  "add_texts L self texts metadatas ids kwargs w =
     (let kwargs0 = (Map.empty :: 'f kwargs);
          kwargs1 =
            (case ids of
               None \<Rightarrow> kwargs0
             | Some l \<Rightarrow>
                 if l \<noteq> [] then
                   (if self_id_tensor_name self = ''ids'' then kwargs0(''ids'' \<mapsto> PyStrList l)
                    else kwargs0(''id'' \<mapsto> PyStrList l))
                 else kwargs0);
          metadatas1 =
            (case metadatas of
               None \<Rightarrow> replicate (length (fst (py_list texts))) Map.empty
             | Some ms \<Rightarrow> ms);
          texts1 =
            (case metadatas of
               None \<Rightarrow> snd (py_list texts)
             | Some ms \<Rightarrow> texts)
      in
        if py_truthy (kwargs_get kwargs1 ''embedding_function'') then
          (let args = \<lparr>a_text = texts1, a_metadata = metadatas1, a_embedding_data = texts1,
                        a_embedding_tensor = ''embedding'',
                        a_embedding_function = kwargs_get kwargs1 ''embedding_function'',
                        a_return_ids = True, a_kwargs = kwargs1\<rparr>
           in engine_call (Add args) (vs_add L (vectorstore self) args) w)
        else
          (case self_embedding_function self of
             None \<Rightarrow> (Inl (AttributeError ''embed_documents''), w)
           | Some p \<Rightarrow>
               let args = \<lparr>a_text = texts1, a_metadata = metadatas1, a_embedding_data = texts1,
                            a_embedding_tensor = ''embedding'',
                            a_embedding_function = PyEmbedDocuments p,
                            a_return_ids = True, a_kwargs = kwargs1\<rparr>
               in engine_call (Add args) (vs_add L (vectorstore self) args) w))"

subsection \<open>Raw-query search\<close>

text \<open>
  What a search method returns is a Python list whose items are documents, or pairs of
  a document and its score. The empty list is the same value either way.
\<close>

datatype 'f result_item =
    DocItem "'f document"
  | ScoredItem "'f document" 'f

type_synonym 'f search_output = "'f result_item list"

text \<open>\<^verbatim>\<open>Document(page_content=text, metadata=metadata)\<close> over \<^verbatim>\<open>zip(texts, metadatas)\<close>.\<close>

definition make_docs :: "string list \<Rightarrow> 'f metadata list \<Rightarrow> 'f document list" where
  "make_docs texts metadatas =
     map (\<lambda>(text, metadata'). \<lparr>page_content = text, metadata = metadata'\<rparr>) (zip texts metadatas)"

text \<open>
  \<^verbatim>\<open>_search_tql(self, tql_query, exec_option=None, return_score=False)\<close>. The engine is
  searched first and the documents are built; \<^verbatim>\<open>return_score\<close> is tested last.
\<close>

definition u_search_tql ::
  "('s, 'f) backend \<Rightarrow> 'f deeplake \<Rightarrow> 'f pyobj \<Rightarrow> string option \<Rightarrow> bool \<Rightarrow> ('s, 'f) world
     \<Rightarrow> (error + 'f search_output) \<times> ('s, 'f) world" where
  "u_search_tql L self tql_query exec_option return_score w =
     (case engine_call (Search (TqlSearch tql_query exec_option))
             (vs_search L (vectorstore self) (TqlSearch tql_query exec_option)) w of
        (Inl e, w1) \<Rightarrow> (Inl e, w1)
      | (Inr result, w1) \<Rightarrow>
          let metadatas = r_metadata result;
              texts = r_text result;
              docs = make_docs texts metadatas
          in if return_score then (Inl (ValueError ScoresWithTql), w1)
             else (Inr (map DocItem docs), w1))"

subsection \<open>Vector search\<close>

text \<open>
  The override \<^verbatim>\<open>embedding_function\<close> of \<^verbatim>\<open>_search\<close>: an \<^verbatim>\<open>Embeddings\<close> instance or a
  plain callable. Both are true as conditions.
\<close>

datatype 'f embedder =
    EmbeddingsObj "'f embeddings"
  | CallableObj "string \<Rightarrow> 'f py_embedding"

text \<open>The local \<^verbatim>\<open>_embedding_function\<close>: override first, then the provider of the instance.\<close>

definition resolve_embedding_function ::
  "'f deeplake \<Rightarrow> 'f embedder option \<Rightarrow> (string \<Rightarrow> 'f py_embedding) option" where
  "resolve_embedding_function self embedding_function =
     (case embedding_function of
        Some (EmbeddingsObj p) \<Rightarrow> Some (embed_query p)
      | Some (CallableObj f) \<Rightarrow> Some f
      | None \<Rightarrow>
          (case self_embedding_function self of
             Some p \<Rightarrow> Some (embed_query p)
           | None \<Rightarrow> None))"

text \<open>
  The block \<^verbatim>\<open>if embedding is None: ...\<close>: without a function it raises; with one, the
  query is embedded only when it is a non-empty string, and the embedding stays
  \<^verbatim>\<open>None\<close> otherwise.
\<close>

definition derive_embedding ::
  "(string \<Rightarrow> 'f py_embedding) option \<Rightarrow> string option \<Rightarrow> 'f py_embedding option
     \<Rightarrow> error + 'f py_embedding option" where
  "derive_embedding ef query embedding =
     (case embedding of
        Some e \<Rightarrow> Inr (Some e)
      | None \<Rightarrow>
          (case ef of
             None \<Rightarrow> Inl (ValueError EmbeddingOrFunctionNeeded)
           | Some f \<Rightarrow>
               (case query of
                  None \<Rightarrow> Inr None
                | Some q \<Rightarrow> if q \<noteq> [] then Inr (Some (f q)) else Inr None)))"

text \<open>
  The block \<^verbatim>\<open>if isinstance(embedding, list): ...\<close>: a list becomes a \<^verbatim>\<open>float32\<close> array,
  and of an array of rank 2 the first row is kept. numpy refuses rows of different
  lengths. \<^verbatim>\<open>None\<close> and an array pass unchanged.
\<close>

definition normalize_embedding ::
  "('s, 'f) backend \<Rightarrow> 'f py_embedding option \<Rightarrow> error + 'f py_embedding option" where
  "normalize_embedding L embedding =
     (case embedding of
        None \<Rightarrow> Inr None
      | Some (NdArray xs) \<Rightarrow> Inr (Some (NdArray xs))
      | Some (PyList xs) \<Rightarrow> Inr (Some (NdArray (map (np_float32 L) xs)))
      | Some (PyListOfLists []) \<Rightarrow> Inr (Some (NdArray []))
      | Some (PyListOfLists (row # rows)) \<Rightarrow>
          if list_all (\<lambda>r. length r = length row) rows
          then Inr (Some (NdArray (map (np_float32 L) row)))
          else Inl (ValueError InhomogeneousShape))"

text \<open>
  The loop
  \<^verbatim>\<open>for meta, embed in zip(metadatas, embeddings): meta['embedding'] = embed; metadatas.append(meta)\<close>
  mutates the list it iterates over and the mappings in it, so the mappings live in a
  store and the list holds their addresses. \<open>j\<close> is the position of the list iterator.
  \<^verbatim>\<open>zip\<close> asks the list first and stops when either side is exhausted; the list grows
  by one address per round, so the loop ends with the embeddings.
\<close>

fun merge_embeddings ::
  "nat \<Rightarrow> 'f list list \<Rightarrow> nat list \<Rightarrow> 'f metadata list \<Rightarrow> nat list \<times> 'f metadata list" where
  "merge_embeddings j [] refs store = (refs, store)"
| "merge_embeddings j (embed' # embeddings) refs store =
     (if j < length refs then
        let meta = refs ! j;
            store1 = store[meta := (store ! meta)(''embedding'' \<mapsto> MVector embed')]
        in merge_embeddings (Suc j) embeddings (refs @ [meta]) store1
      else (refs, store))"

text \<open>
  The list \<^verbatim>\<open>metadatas\<close> after the loop, by value. The engine's rows are distinct
  mappings: row \<open>i\<close> is at address \<open>i\<close>.
\<close>

definition merged_metadatas :: "'f metadata list \<Rightarrow> 'f list list \<Rightarrow> 'f metadata list" where
  "merged_metadatas metadatas embeddings =
     (case merge_embeddings 0 embeddings [0..<length metadatas] metadatas of
        (refs, store) \<Rightarrow> map (\<lambda>a. store ! a) refs)"

text \<open>
  \<^verbatim>\<open>_search(self, query, embedding, embedding_function, k, distance_metric, filter,
  return_score, exec_option, **kwargs)\<close>, with every named parameter given.
\<close>

definition u_search ::
  "('s, 'f) backend \<Rightarrow> 'f deeplake \<Rightarrow> string option \<Rightarrow> 'f py_embedding option
     \<Rightarrow> 'f embedder option \<Rightarrow> int \<Rightarrow> string \<Rightarrow> filter_arg option \<Rightarrow> bool \<Rightarrow> string option
     \<Rightarrow> 'f kwargs \<Rightarrow> ('s, 'f) world \<Rightarrow> (error + 'f search_output) \<times> ('s, 'f) world" where
  "u_search L self query embedding embedding_function k distance_metric filter' return_score
            exec_option kwargs w =
     (if py_truthy (kwargs_get kwargs ''tql_query'') then
        u_search_tql L self (kwargs_get kwargs ''tql_query'') exec_option return_score w
      else
        case derive_embedding (resolve_embedding_function self embedding_function)
               query embedding of
          Inl e \<Rightarrow> (Inl e, w)
        | Inr embedding1 \<Rightarrow>
            (case normalize_embedding L embedding1 of
               Inl e \<Rightarrow> (Inl e, w)
             | Inr embedding2 \<Rightarrow>
                 (let args = EmbeddingSearch embedding2 k distance_metric filter' exec_option
                               [''embedding'', ''metadata'', ''text'']
                  in case engine_call (Search args) (vs_search L (vectorstore self) args) w of
                       (Inl e, w1) \<Rightarrow> (Inl e, w1)
                     | (Inr result, w1) \<Rightarrow>
                         let scores = r_score result;
                             embeddings = r_embedding result;
                             metadatas = merged_metadatas (r_metadata result) embeddings;
                             texts = r_text result;
                             docs = make_docs texts metadatas
                         in if return_score then
                              (Inr (map (\<lambda>(doc, score). ScoredItem doc score) (zip docs scores)), w1)
                            else (Inr (map DocItem docs), w1))))"

subsection \<open>similarity_search\<close>

text \<open>The tests \<^verbatim>\<open>x is None\<close> and \<^verbatim>\<open>x is not None\<close> on an optional argument.\<close>

fun is_None :: "'a option \<Rightarrow> bool" where
  "is_None None = True"
| "is_None (Some x) = False"

fun is_not_None :: "'a option \<Rightarrow> bool" where
  "is_not_None None = False"
| "is_not_None (Some x) = True"

text \<open>
  The keyword arguments \<^verbatim>\<open>similarity_search\<close> hands on to \<^verbatim>\<open>_search\<close>: those that bind
  to a named parameter of \<^verbatim>\<open>_search\<close> (\<open>None\<close> when the caller leaves one out) and the
  rest. The defaults of \<^verbatim>\<open>_search\<close> are \<^verbatim>\<open>distance_metric="L2"\<close> and
  \<^verbatim>\<open>return_score=True\<close>.
\<close>

record 'f search_kwargs =
  kw_embedding_function :: "'f embedder option"
  kw_distance_metric :: "string option"
  kw_filter :: "filter_arg option"
  kw_return_score :: "bool option"
  kw_exec_option :: "string option"
  kw_rest :: "'f kwargs"

definition similarity_search ::
  "('s, 'f) backend \<Rightarrow> 'f deeplake \<Rightarrow> string option \<Rightarrow> 'f py_embedding option \<Rightarrow> int
     \<Rightarrow> 'f search_kwargs \<Rightarrow> ('s, 'f) world \<Rightarrow> (error + 'f search_output) \<times> ('s, 'f) world" where
  "similarity_search L self query embedding k kwargs w =
     (if (is_None embedding \<and> is_None query) \<or> (is_not_None embedding \<and> is_not_None query) then
        (Inl (ValueError QueryOrEmbeddingNotBoth), w)
      else
        u_search L self query embedding (kw_embedding_function kwargs) k
          (case kw_distance_metric kwargs of None \<Rightarrow> ''L2'' | Some d \<Rightarrow> d)
          (kw_filter kwargs)
          (case kw_return_score kwargs of None \<Rightarrow> True | Some b \<Rightarrow> b)
          (kw_exec_option kwargs)
          (kw_rest kwargs) w)"

subsection \<open>from_texts\<close>

text \<open>
  The keyword arguments of \<^verbatim>\<open>from_texts\<close> beyond its named parameters: those that bind
  to a parameter of \<^verbatim>\<open>__init__\<close> (with its default when left out) and the rest, which
  \<^verbatim>\<open>__init__\<close> passes to the engine.
\<close>

record 'f from_texts_kwargs =
  fk_token :: "string option"
  fk_read_only :: "bool option"
  fk_ingestion_batch_size :: "int option"
  fk_num_workers :: "int option"
  fk_verbose :: "bool option"
  fk_exec_option :: "string option"
  fk_rest :: "'f kwargs"

text \<open>
  \<^verbatim>\<open>from_texts(cls, texts, embedding_function, metadatas, ids, dataset_path, **kwargs)\<close>.
  After the instance is built, the arguments of the call to \<^verbatim>\<open>add_texts\<close> are evaluated;
  the last one is \<^verbatim>\<open>embedding.embed_documents\<close>, and \<^verbatim>\<open>embedding\<close> is neither a
  parameter, nor a local, nor a name of the module: evaluating it raises
  \<^verbatim>\<open>NameError\<close>, before \<^verbatim>\<open>add_texts\<close> is entered.
\<close>

definition from_texts ::
  "('s, 'f) backend \<Rightarrow> string list \<Rightarrow> 'f embeddings option \<Rightarrow> 'f metadata list option
     \<Rightarrow> string list option \<Rightarrow> string \<Rightarrow> 'f from_texts_kwargs \<Rightarrow> ('s, 'f) world
     \<Rightarrow> (error + 'f deeplake) \<times> ('s, 'f) world" where
  "from_texts L texts embedding_function metadatas ids dataset_path' kwargs w =
     (if py_truthy (kwargs_get (fk_rest kwargs) ''embedding'') then
        (Inl (ValueError EmbeddingParamDeprecated), w)
      else
        case init L dataset_path' (fk_token kwargs) embedding_function
               (case fk_read_only kwargs of None \<Rightarrow> False | Some b \<Rightarrow> b)
               (case fk_ingestion_batch_size kwargs of None \<Rightarrow> 1000 | Some n \<Rightarrow> n)
               (case fk_num_workers kwargs of None \<Rightarrow> 0 | Some n \<Rightarrow> n)
               (case fk_verbose kwargs of None \<Rightarrow> True | Some b \<Rightarrow> b)
               (case fk_exec_option kwargs of None \<Rightarrow> ''python'' | Some x \<Rightarrow> x)
               (fk_rest kwargs) w of
          (Inl e, w1) \<Rightarrow> (Inl e, w1)
        | (Inr deeplake_dataset, w1) \<Rightarrow> (Inl (NameError ''embedding''), w1))"

subsection \<open>A small engine to run the adapter on\<close>

text \<open>
  An engine over integers as floats, whose state is the list of texts stored so far.
  It knows the id field as \<open>id\<close>, hands out an id per text it can read when none comes
  with the insertion, and answers every search with the same two rows.
  \<open>failing_search_backend\<close> is the same engine, except that every search raises.
\<close>

definition sample_provider :: "int embeddings" where
  "sample_provider =
     \<lparr>embed_query = (\<lambda>q. PyList [int (length q)]),
      embed_documents = (\<lambda>ts. map (\<lambda>t. [int (length t)]) ts)\<rparr>"

definition sample_rows :: "int search_result" where
  "sample_rows =
     \<lparr>r_score = [1, 2],
      r_embedding = [[1, 0], [0, 1]],
      r_metadata = [[''source'' \<mapsto> MStr ''a''], Map.empty],
      r_text = [''x'', ''y'']\<rparr>"

definition sample_backend :: "(string list, int) backend" where
  "sample_backend =
     \<lparr>deeplake_installed = True,
      version_compare = 1,
      vs_open = (\<lambda>args s. (Inr (), s)),
      vs_tensors = (\<lambda>args s. [''embedding'', ''id'', ''metadata'', ''text'']),
      vs_add = (\<lambda>h args s.
         (Inr (case a_kwargs args ''id'' of
                 Some (PyStrList l) \<Rightarrow> l
               | _ \<Rightarrow> map (\<lambda>t. ''id-'' @ t) (texts_items (a_text args))),
          s @ texts_items (a_text args))),
      vs_search = (\<lambda>h args s. (Inr sample_rows, s)),
      np_float32 = (\<lambda>x. x)\<rparr>"

definition failing_search_backend :: "(string list, int) backend" where
  "failing_search_backend =
     \<lparr>deeplake_installed = True,
      version_compare = 1,
      vs_open = (\<lambda>args s. (Inr (), s)),
      vs_tensors = (\<lambda>args s. [''embedding'', ''id'', ''metadata'', ''text'']),
      vs_add = (\<lambda>h args s. (Inr [], s)),
      vs_search = (\<lambda>h args s. (Inl ''invalid query'', s)),
      np_float32 = (\<lambda>x. x)\<rparr>"

definition sample_world :: "(string list, int) world" where
  "sample_world = \<lparr>w_engine = [], w_calls = []\<rparr>"

definition sample_open_args :: "int open_args" where
  "sample_open_args =
     \<lparr>o_path = ''./deeplake/'', o_embedding_function = Some sample_provider,
      o_read_only = False, o_token = None, o_exec_option = ''python'', o_verbose = True,
      o_kwargs = Map.empty\<rparr>"

definition sample_store :: "int deeplake" where
  "sample_store =
     \<lparr>ingestion_batch_size = 1000, num_workers = 0, verbose = True,
      dataset_path = ''./deeplake/'', vectorstore = sample_open_args,
      self_embedding_function = Some sample_provider, self_id_tensor_name = ''id''\<rparr>"

definition sample_store_without_provider :: "int deeplake" where
  "sample_store_without_provider =
     \<lparr>ingestion_batch_size = 1000, num_workers = 0, verbose = True,
      dataset_path = ''./deeplake/'',
      vectorstore = sample_open_args\<lparr>o_embedding_function := None\<rparr>,
      self_embedding_function = None, self_id_tensor_name = ''id''\<rparr>"

definition no_search_kwargs :: "int search_kwargs" where
  "no_search_kwargs =
     \<lparr>kw_embedding_function = None, kw_distance_metric = None, kw_filter = None,
      kw_return_score = None, kw_exec_option = None, kw_rest = Map.empty\<rparr>"

definition no_from_texts_kwargs :: "int from_texts_kwargs" where
  "no_from_texts_kwargs =
     \<lparr>fk_token = None, fk_read_only = None, fk_ingestion_batch_size = None,
      fk_num_workers = None, fk_verbose = None, fk_exec_option = None, fk_rest = Map.empty\<rparr>"

section \<open>Properties\<close>

subsection \<open>Auxiliary facts\<close>

lemma engine_call_calls: "w_calls (snd (engine_call c f w)) = w_calls w @ [c]"
  by (simp add: engine_call_def split: prod.splits sum.splits)

text \<open>
  The merge loop on aligned columns: from position \<open>j\<close> on, each round updates the
  mapping at address \<open>j\<close> and appends that address.
\<close>

lemma merge_embeddings_aligned:
  "j + length es \<le> n \<Longrightarrow> length store = n \<Longrightarrow>
   merge_embeddings j es ([0..<n] @ [0..<j]) store = (refs', store') \<Longrightarrow>
   refs' = [0..<n] @ [0..<j + length es] \<and> length store' = n \<and>
   (\<forall>i<n. store' ! i =
      (if j \<le> i \<and> i < j + length es
       then (store ! i)(''embedding'' \<mapsto> MVector (es ! (i - j))) else store ! i))"
proof (induction es arbitrary: j store)
  case Nil
  then show ?case by auto
next
  case (Cons e es)
  have jn: "j < n" using Cons.prems(1) by simp
  have nth_j: "([0..<n] @ [0..<j]) ! j = j" using jn by (simp add: nth_append)
  let ?store1 = "store[j := (store ! j)(''embedding'' \<mapsto> MVector e)]"
  have step: "merge_embeddings (Suc j) es ([0..<n] @ [0..<Suc j]) ?store1 = (refs', store')"
    using Cons.prems(3) jn nth_j by (simp add: Let_def)
  have len1: "length ?store1 = n" using Cons.prems(2) by simp
  have le1: "Suc j + length es \<le> n" using Cons.prems(1) by simp
  note ih = Cons.IH [OF le1 len1 step]
  have pointwise: "store' ! i =
      (if j \<le> i \<and> i < j + length (e # es)
       then (store ! i)(''embedding'' \<mapsto> MVector ((e # es) ! (i - j))) else store ! i)"
    if "i < n" for i
  proof (cases "i = j")
    case True
    then show ?thesis using ih that Cons.prems(2) by (auto simp: fun_upd_def)
  next
    case False
    then show ?thesis using ih that Cons.prems(2)
      by (auto simp: nth_Cons' Suc_diff_le)
  qed
  from ih pointwise show ?case by simp
qed

text \<open>
  With as many embeddings as rows, the list ends up twice as long: the enriched rows,
  then the same rows again.
\<close>

lemma merged_metadatas_aligned:
  assumes "length es = length ms"
  shows "merged_metadatas ms es =
     map (\<lambda>i. (ms ! i)(''embedding'' \<mapsto> MVector (es ! i))) [0..<length ms]
     @ map (\<lambda>i. (ms ! i)(''embedding'' \<mapsto> MVector (es ! i))) [0..<length ms]"
proof -
  obtain refs' store'
    where m: "merge_embeddings 0 es ([0..<length ms] @ [0..<0]) ms = (refs', store')"
    by (cases "merge_embeddings 0 es ([0..<length ms] @ [0..<0]) ms") simp
  have a: "refs' = [0..<length ms] @ [0..<0 + length es] \<and> length store' = length ms \<and>
   (\<forall>i<length ms. store' ! i =
      (if 0 \<le> i \<and> i < 0 + length es
       then (ms ! i)(''embedding'' \<mapsto> MVector (es ! (i - 0))) else ms ! i))"
    by (rule merge_embeddings_aligned [OF _ _ m]) (simp_all add: assms)
  have "merged_metadatas ms es = map (\<lambda>a. store' ! a) refs'"
    using m by (simp add: merged_metadatas_def)
  also have "\<dots> = map (\<lambda>a. store' ! a) [0..<length ms] @ map (\<lambda>a. store' ! a) [0..<length ms]"
    using a assms by simp
  also have "map (\<lambda>a. store' ! a) [0..<length ms] =
      map (\<lambda>i. (ms ! i)(''embedding'' \<mapsto> MVector (es ! i))) [0..<length ms]"
    using a assms by simp
  finally show ?thesis .
qed

lemma make_docs_aligned:
  assumes "length texts = n"
  shows "make_docs texts (map f [0..<n] @ rest) =
         map (\<lambda>i. \<lparr>page_content = texts ! i, metadata = f i\<rparr>) [0..<n]"
  using assms by (auto simp: make_docs_def intro!: nth_equalityI simp: nth_append)

text \<open>
  The vector path of \<^verbatim>\<open>_search\<close> on an embedding that numpy accepts, when the engine
  answers with \<open>n\<close> aligned rows: one item per row, in the engine's order, with the
  row's embedding stored under \<open>embedding\<close> in its metadata.
\<close>

lemma u_search_vector_path:
  assumes "\<not> py_truthy (kwargs_get kwargs ''tql_query'')"
    and "normalize_embedding L (Some e) = Inr e'"
    and "vs_search L (vectorstore self)
           (EmbeddingSearch e' k dm flt exec [''embedding'', ''metadata'', ''text''])
           (w_engine w) = (Inr result, s')"
    and "length (r_text result) = n" and "length (r_metadata result) = n"
    and "length (r_embedding result) = n" and "length (r_score result) = n"
  shows "fst (u_search L self query (Some e) ef k dm flt rs exec kwargs w) =
     Inr (map (\<lambda>i.
            let doc = \<lparr>page_content = r_text result ! i,
                       metadata = (r_metadata result ! i)
                         (''embedding'' \<mapsto> MVector (r_embedding result ! i))\<rparr>
            in if rs then ScoredItem doc (r_score result ! i) else DocItem doc) [0..<n])"
proof -
  let ?f = "\<lambda>i. (r_metadata result ! i)(''embedding'' \<mapsto> MVector (r_embedding result ! i))"
  let ?docs = "map (\<lambda>i. \<lparr>page_content = r_text result ! i, metadata = ?f i\<rparr>) [0..<n]"
  have mm: "merged_metadatas (r_metadata result) (r_embedding result) =
      map ?f [0..<n] @ map ?f [0..<n]"
    using merged_metadatas_aligned [of "r_embedding result" "r_metadata result"] assms(5,6)
    by simp
  have docs: "make_docs (r_text result)
      (merged_metadatas (r_metadata result) (r_embedding result)) = ?docs"
    unfolding mm by (rule make_docs_aligned [OF assms(4)])
  have zipped: "map (\<lambda>(doc, score). ScoredItem doc score) (zip ?docs (r_score result)) =
      map (\<lambda>i. ScoredItem \<lparr>page_content = r_text result ! i, metadata = ?f i\<rparr>
                  (r_score result ! i)) [0..<n]"
    using assms(7) by (auto intro!: nth_equalityI)
  have "fst (u_search L self query (Some e) ef k dm flt rs exec kwargs w) =
      Inr (if rs then map (\<lambda>(doc, score). ScoredItem doc score) (zip ?docs (r_score result))
           else map DocItem ?docs)"
    using assms(1,2,3) docs
    by (simp add: u_search_def derive_embedding_def engine_call_def Let_def)
  then show ?thesis using zipped by (simp add: Let_def)
qed

text \<open>
  When the caller passes \<^verbatim>\<open>return_score=False\<close> itself, \<^verbatim>\<open>similarity_search\<close> on an
  embedding returns one document per engine row, in the engine's order, each with the
  row's metadata and the row's embedding under \<open>embedding\<close>.
\<close>

lemma similarity_search_explicit_no_scores:
  assumes "kw_return_score kwargs = Some False"
    and "\<not> py_truthy (kwargs_get (kw_rest kwargs) ''tql_query'')"
    and "normalize_embedding L (Some e) = Inr e'"
    and "vs_search L (vectorstore self)
           (EmbeddingSearch e' k (case kw_distance_metric kwargs of None \<Rightarrow> ''L2'' | Some d \<Rightarrow> d)
              (kw_filter kwargs) (kw_exec_option kwargs) [''embedding'', ''metadata'', ''text''])
           (w_engine w) = (Inr result, s')"
    and "length (r_text result) = n" and "length (r_metadata result) = n"
    and "length (r_embedding result) = n" and "length (r_score result) = n"
  shows "fst (similarity_search L self None (Some e) k kwargs w) =
     Inr (map (\<lambda>i. DocItem
                 \<lparr>page_content = r_text result ! i,
                  metadata = (r_metadata result ! i)
                    (''embedding'' \<mapsto> MVector (r_embedding result ! i))\<rparr>) [0..<n])"
  using u_search_vector_path [OF assms(2-8), where rs = False] assms(1)
  by (simp add: similarity_search_def Let_def)

lemma engine_call_errors:
  "fst (engine_call c f w) = Inl e \<Longrightarrow> \<exists>msg. e = EngineError msg"
  by (auto simp: engine_call_def split: prod.splits sum.splits)

lemma u_search_tql_calls:
  "w_calls (snd (u_search_tql L self q exec rs w)) = w_calls w @ [Search (TqlSearch q exec)]"
  by (cases "vs_search L (vectorstore self) (TqlSearch q exec) (w_engine w)")
     (auto simp: u_search_tql_def engine_call_def Let_def split: sum.splits)

lemma u_search_tql_errors:
  "fst (u_search_tql L self q exec rs w) = Inl e \<Longrightarrow>
     e = ValueError ScoresWithTql \<or> (\<exists>msg. e = EngineError msg)"
  by (auto simp: u_search_tql_def engine_call_def Let_def split: prod.splits sum.splits if_splits)




lemma resolve_with_provider:
  "self_embedding_function self = Some p \<Longrightarrow> \<exists>f. resolve_embedding_function self ef = Some f"
  by (auto simp: resolve_embedding_function_def split: option.splits embedder.splits)

text \<open>
  \<^verbatim>\<open>_search\<close> on the empty query string, without an embedding and without a raw query,
  on an instance with a provider: the engine is searched with no embedding.
\<close>

lemma u_search_empty_query:
  assumes "self_embedding_function self = Some p"
    and "\<not> py_truthy (kwargs_get kwargs ''tql_query'')"
  shows "u_search L self (Some []) None ef k dm flt rs exec kwargs w =
    (let args = EmbeddingSearch None k dm flt exec [''embedding'', ''metadata'', ''text'']
     in case engine_call (Search args) (vs_search L (vectorstore self) args) w of
          (Inl e, w1) \<Rightarrow> (Inl e, w1)
        | (Inr result, w1) \<Rightarrow>
            let docs = make_docs (r_text result)
                         (merged_metadatas (r_metadata result) (r_embedding result))
            in if rs then
                 (Inr (map (\<lambda>(doc, score). ScoredItem doc score) (zip docs (r_score result))), w1)
               else (Inr (map DocItem docs), w1))"
proof -
  obtain f where "resolve_embedding_function self ef = Some f"
    using resolve_with_provider [OF assms(1)] by blast
  then show ?thesis using assms(2)
    by (simp add: u_search_def derive_embedding_def normalize_embedding_def Let_def
          split: prod.splits sum.splits)
qed

text \<open>Construction on the sample engine.\<close>

lemma init_sample:
  "init sample_backend ''./deeplake/'' None (Some sample_provider) False 1000 0 True ''python''
     Map.empty sample_world
   = (Inr sample_store, \<lparr>w_engine = [], w_calls = [Open sample_open_args, Tensors]\<rparr>)"
  by (simp add: init_def sample_backend_def sample_world_def sample_store_def
        sample_open_args_def engine_call_def Let_def)

lemma init_sample_without_provider:
  "init sample_backend ''./deeplake/'' None None False 1000 0 True ''python''
     Map.empty sample_world
   = (Inr sample_store_without_provider,
      \<lparr>w_engine = [],
       w_calls = [Open (sample_open_args\<lparr>o_embedding_function := None\<rparr>), Tensors]\<rparr>)"
  by (simp add: init_def sample_backend_def sample_world_def sample_store_without_provider_def
        sample_open_args_def engine_call_def Let_def)

subsection \<open>from_texts\<close>

text \<open>
  C1. The claim: \<^verbatim>\<open>from_texts\<close> builds a new instance at the dataset path, calls
  \<^verbatim>\<open>add_texts\<close> once with the texts, metadatas and ids, and returns the instance. What
  the code does, for every input without the deprecated parameter on which the
  construction succeeds: it opens the dataset, reads its field names, and then stops
  with \<^verbatim>\<open>NameError\<close> on the undefined name \<^verbatim>\<open>embedding\<close>. Nothing is inserted and
  no instance is returned.
\<close>

theorem from_texts_raises_NameError:
  assumes "\<not> py_truthy (kwargs_get (fk_rest kwargs) ''embedding'')"
    and "deeplake_installed L" and "version_compare L \<noteq> - 1"
    and "args = \<lparr>o_path = path, o_embedding_function = ef,
                  o_read_only = (case fk_read_only kwargs of None \<Rightarrow> False | Some b \<Rightarrow> b),
                  o_token = fk_token kwargs,
                  o_exec_option = (case fk_exec_option kwargs of None \<Rightarrow> ''python'' | Some x \<Rightarrow> x),
                  o_verbose = (case fk_verbose kwargs of None \<Rightarrow> True | Some b \<Rightarrow> b),
                  o_kwargs = fk_rest kwargs\<rparr>"
    and "vs_open L args (w_engine w) = (Inr (), s1)"
  shows "from_texts L texts ef metadatas ids path kwargs w =
           (Inl (NameError ''embedding''),
            \<lparr>w_engine = s1, w_calls = w_calls w @ [Open args, Tensors]\<rparr>)"
  using assms by (simp add: from_texts_def init_def engine_call_def Let_def)

theorem from_texts_raises_NameError_witness:
  "from_texts sample_backend [''a''] (Some sample_provider) None None ''./deeplake/''
      no_from_texts_kwargs sample_world =
     (Inl (NameError ''embedding''),
      \<lparr>w_engine = [], w_calls = [Open sample_open_args, Tensors]\<rparr>)"
  using from_texts_raises_NameError
    [where kwargs = no_from_texts_kwargs and L = sample_backend and args = sample_open_args
       and path = "''./deeplake/''" and ef = "Some sample_provider" and w = sample_world
       and ?s1.0 = "[]" and texts = "[''a'']" and metadatas = None and ids = None]
  by (simp add: no_from_texts_kwargs_def sample_backend_def sample_world_def
        sample_open_args_def kwargs_get_def)

text \<open>On no input at all does \<^verbatim>\<open>from_texts\<close> return an instance.\<close>

lemma from_texts_never_returns:
  "fst (from_texts L texts ef metadatas ids path kwargs w) \<noteq> Inr d"
  by (simp add: from_texts_def split: prod.splits sum.splits)

subsection \<open>similarity_search: the shape of the result\<close>

text \<open>
  C2. The claim: called with an embedding and without asking for scores,
  \<^verbatim>\<open>similarity_search\<close> returns \<^verbatim>\<open>Document\<close> objects, one per engine row, in the engine's
  order, each with the row's metadata plus the key \<open>embedding\<close>. What the code does when
  the caller leaves \<^verbatim>\<open>return_score\<close> out: \<^verbatim>\<open>similarity_search\<close> does not set it, the
  default of \<^verbatim>\<open>_search\<close> is \<^verbatim>\<open>True\<close>, and every item of the result is a pair of a
  document and its score. The documents inside the pairs are the ones the claim
  describes.
\<close>

theorem similarity_search_default_returns_pairs:
  assumes "kw_return_score kwargs = None"
    and "\<not> py_truthy (kwargs_get (kw_rest kwargs) ''tql_query'')"
    and "normalize_embedding L (Some e) = Inr e'"
    and "vs_search L (vectorstore self)
           (EmbeddingSearch e' k (case kw_distance_metric kwargs of None \<Rightarrow> ''L2'' | Some d \<Rightarrow> d)
              (kw_filter kwargs) (kw_exec_option kwargs) [''embedding'', ''metadata'', ''text''])
           (w_engine w) = (Inr result, s')"
    and "length (r_text result) = n" and "length (r_metadata result) = n"
    and "length (r_embedding result) = n" and "length (r_score result) = n"
  shows "fst (similarity_search L self None (Some e) k kwargs w) =
     Inr (map (\<lambda>i. ScoredItem
                 \<lparr>page_content = r_text result ! i,
                  metadata = (r_metadata result ! i)
                    (''embedding'' \<mapsto> MVector (r_embedding result ! i))\<rparr>
                 (r_score result ! i)) [0..<n])"
  using u_search_vector_path [OF assms(2-8), where rs = True] assms(1)
  by (simp add: similarity_search_def Let_def)

theorem similarity_search_default_returns_pairs_witness:
  "fst (similarity_search sample_backend sample_store None (Some (PyList [1, 0])) 2
          no_search_kwargs sample_world) =
     Inr [ScoredItem \<lparr>page_content = ''x'',
                      metadata = [''source'' \<mapsto> MStr ''a'', ''embedding'' \<mapsto> MVector [1, 0]]\<rparr> 1,
          ScoredItem \<lparr>page_content = ''y'',
                      metadata = [''embedding'' \<mapsto> MVector [0, 1]]\<rparr> 2]"
  using similarity_search_default_returns_pairs
    [where kwargs = no_search_kwargs and L = sample_backend and e = "PyList [1, 0]"
       and e' = "Some (NdArray [1, 0])" and self = sample_store and k = 2
       and w = sample_world and result = sample_rows and s' = "[]" and n = 2]
  by (simp add: no_search_kwargs_def sample_backend_def sample_rows_def sample_world_def
        sample_store_def normalize_embedding_def kwargs_get_def upt_rec)

subsection \<open>similarity_search: the guard on query and embedding\<close>




subsection \<open>Raw-query search\<close>

text \<open>
  C4, as amended. A raw-query search hands the query to the engine first. When the
  engine executes it and returns its rows: with scores requested the call fails with
  the unsupported-operation error, and without them it returns one document per result
  row, built from the row's text and metadata. When the engine raises instead, the
  call fails with the engine's exception, whether scores are requested or not.
\<close>

theorem search_tql_contract:
  "(case vs_search L (vectorstore self) (TqlSearch tql_query exec_option) (w_engine w) of
      (Inr result, s') \<Rightarrow>
        fst (u_search_tql L self tql_query exec_option True w) = Inl (ValueError ScoresWithTql)
        \<and> spec_error_kind (ValueError ScoresWithTql) = Some UnsupportedOperationError
        \<and> fst (u_search_tql L self tql_query exec_option False w) =
            Inr (map (\<lambda>(text, meta). DocItem \<lparr>page_content = text, metadata = meta\<rparr>)
                   (zip (r_text result) (r_metadata result)))
    | (Inl msg, s') \<Rightarrow>
        fst (u_search_tql L self tql_query exec_option return_score w) = Inl (EngineError msg))"
  by (simp add: u_search_tql_def engine_call_def make_docs_def Let_def split_def
        split: prod.splits sum.splits)

theorem search_tql_contract_witness:
  "fst (u_search_tql sample_backend sample_store (PyStr ''SELECT * WHERE id == 1'') None True
          sample_world) = Inl (ValueError ScoresWithTql)
   \<and> spec_error_kind (ValueError ScoresWithTql) = Some UnsupportedOperationError
   \<and> fst (u_search_tql sample_backend sample_store (PyStr ''SELECT * WHERE id == 1'') None False
          sample_world) =
       Inr [DocItem \<lparr>page_content = ''x'', metadata = [''source'' \<mapsto> MStr ''a'']\<rparr>,
            DocItem \<lparr>page_content = ''y'', metadata = Map.empty\<rparr>]
   \<and> fst (u_search_tql failing_search_backend sample_store (PyStr ''SELECT * WHERE id =='') None
          False sample_world) = Inl (EngineError ''invalid query'')"
proof -
  note rows = search_tql_contract
    [where L = sample_backend and self = sample_store
       and tql_query = "PyStr ''SELECT * WHERE id == 1''" and exec_option = None
       and w = sample_world]
  note raises = search_tql_contract
    [where L = failing_search_backend and self = sample_store
       and tql_query = "PyStr ''SELECT * WHERE id ==''" and exec_option = None
       and w = sample_world and return_score = False]
  have a: "fst (u_search_tql sample_backend sample_store (PyStr ''SELECT * WHERE id == 1'') None
          True sample_world) = Inl (ValueError ScoresWithTql)
     \<and> spec_error_kind (ValueError ScoresWithTql) = Some UnsupportedOperationError
     \<and> fst (u_search_tql sample_backend sample_store (PyStr ''SELECT * WHERE id == 1'') None False
          sample_world) =
       Inr [DocItem \<lparr>page_content = ''x'', metadata = [''source'' \<mapsto> MStr ''a'']\<rparr>,
            DocItem \<lparr>page_content = ''y'', metadata = Map.empty\<rparr>]"
    using rows by (simp add: sample_backend_def sample_rows_def sample_world_def)
  have b: "fst (u_search_tql failing_search_backend sample_store
          (PyStr ''SELECT * WHERE id =='') None False sample_world)
        = Inl (EngineError ''invalid query'')"
    using raises by (simp add: failing_search_backend_def sample_world_def)
  from a b show ?thesis by blast
qed

text \<open>
  C4 as stated, for every raw-query search call, fails when the engine raises on the
  query: the call with scores requested then fails with the engine's exception, which
  is no unsupported-operation error, and the call without them returns no documents.
\<close>

theorem search_tql_engine_error_first:
  "fst (u_search_tql failing_search_backend sample_store (PyStr ''SELECT * WHERE id =='') None
          True sample_world) = Inl (EngineError ''invalid query'')
   \<and> spec_error_kind (EngineError ''invalid query'') = None
   \<and> fst (u_search_tql failing_search_backend sample_store (PyStr ''SELECT * WHERE id =='') None
          False sample_world) = Inl (EngineError ''invalid query'')"
  by (simp add: u_search_tql_def engine_call_def failing_search_backend_def sample_world_def)

text \<open>
  C8, as amended. Every raw-query search makes exactly one search call on the engine,
  whether scores are requested or not; and the error for requested scores is raised
  exactly when the engine has executed the query and returned its rows. The error
  comes after the engine's search, not before it.
\<close>

theorem search_tql_scores_error_after_search:
  "w_calls (snd (u_search_tql L self tql_query exec_option return_score w))
     = w_calls w @ [Search (TqlSearch tql_query exec_option)]
   \<and> (fst (u_search_tql L self tql_query exec_option True w) = Inl (ValueError ScoresWithTql))
     = (\<exists>result s'. vs_search L (vectorstore self) (TqlSearch tql_query exec_option) (w_engine w)
                        = (Inr result, s'))"
  by (cases "vs_search L (vectorstore self) (TqlSearch tql_query exec_option) (w_engine w)")
     (auto simp: u_search_tql_def engine_call_def Let_def split: sum.splits)

text \<open>
  C8 as stated, that the failing call performs no engine search, fails: the call below
  fails with the error for requested scores, and the engine's log holds the search.
\<close>

theorem search_tql_scores_error_searches_first:
  "u_search_tql sample_backend sample_store (PyStr ''SELECT * WHERE id == 1'') None True
      sample_world =
     (Inl (ValueError ScoresWithTql),
      \<lparr>w_engine = [], w_calls = [Search (TqlSearch (PyStr ''SELECT * WHERE id == 1'') None)]\<rparr>)"
  by (simp add: u_search_tql_def engine_call_def sample_backend_def sample_world_def Let_def)

subsection \<open>add_texts\<close>

text \<open>
  On a list of texts without ids, and on an instance with a provider, \<^verbatim>\<open>add_texts\<close> is
  one insertion into the engine: the texts in their order as \<^verbatim>\<open>text\<close> and as
  \<^verbatim>\<open>embedding_data\<close>, the provider's \<^verbatim>\<open>embed_documents\<close> as the embedding function,
  and no id field. What the engine returns for it is returned as it is.
\<close>

lemma add_texts_list_without_ids:
  assumes "self_embedding_function self = Some p"
  shows "add_texts L self (TextList texts) metadatas None kwargs w =
     (let args = \<lparr>a_text = TextList texts,
                   a_metadata = (case metadatas of
                                   None \<Rightarrow> replicate (length texts) Map.empty
                                 | Some ms \<Rightarrow> ms),
                   a_embedding_data = TextList texts, a_embedding_tensor = ''embedding'',
                   a_embedding_function = PyEmbedDocuments p, a_return_ids = True,
                   a_kwargs = Map.empty\<rparr>
      in engine_call (Add args) (vs_add L (vectorstore self) args) w)"
  using assms by (simp add: add_texts_def kwargs_get_def Let_def split: option.splits)

text \<open>
  C5. The claim: \<^verbatim>\<open>add_texts\<close> with \<open>N\<close> texts and no ids has every text embedded by the
  provider's \<^verbatim>\<open>embed_documents\<close>, inserts once, and returns \<open>N\<close> ids in input order.
  What the code does when the \<open>N\<close> texts come as a one-shot iterator and \<^verbatim>\<open>metadatas\<close>
  is left out: \<^verbatim>\<open>len(list(texts))\<close> runs the iterator dry, and the one insertion hands
  the engine the exhausted iterator as \<^verbatim>\<open>text\<close> and as \<^verbatim>\<open>embedding_data\<close>, beside \<open>N\<close>
  empty metadata mappings. No text reaches the provider or the engine.
\<close>

theorem add_texts_exhausts_iterator:
  assumes "self_embedding_function self = Some p"
  shows "add_texts L self (TextIter texts) None None kwargs w =
     (let args = \<lparr>a_text = TextIter [],
                   a_metadata = replicate (length texts) Map.empty,
                   a_embedding_data = TextIter [], a_embedding_tensor = ''embedding'',
                   a_embedding_function = PyEmbedDocuments p, a_return_ids = True,
                   a_kwargs = Map.empty\<rparr>
      in engine_call (Add args) (vs_add L (vectorstore self) args) w)"
  using assms by (simp add: add_texts_def kwargs_get_def Let_def)

theorem add_texts_exhausts_iterator_witness:
  "add_texts sample_backend sample_store (TextIter [''a'', ''bc'']) None None Map.empty
      sample_world =
     (Inr [],
      \<lparr>w_engine = [],
       w_calls = [Add \<lparr>a_text = TextIter [], a_metadata = [Map.empty, Map.empty],
                       a_embedding_data = TextIter [], a_embedding_tensor = ''embedding'',
                       a_embedding_function = PyEmbedDocuments sample_provider,
                       a_return_ids = True, a_kwargs = Map.empty\<rparr>]\<rparr>)"
proof -
  have p: "self_embedding_function sample_store = Some sample_provider"
    by (simp add: sample_store_def)
  show ?thesis
    using add_texts_exhausts_iterator
      [OF p, of sample_backend "[''a'', ''bc'']" Map.empty sample_world]
    by (simp add: Let_def engine_call_def sample_backend_def sample_world_def numeral_2_eq_2)
qed

text \<open>
  C6. Leaving \<^verbatim>\<open>metadatas\<close> out is the same call as passing one empty mapping per text:
  the same result and the same insertion into the engine, for every list of texts and
  every \<^verbatim>\<open>ids\<close>.
\<close>

theorem add_texts_metadatas_default:
  "add_texts L self (TextList texts) None ids kwargs w =
   add_texts L self (TextList texts) (Some (replicate (length texts) Map.empty)) ids kwargs w"
  by (simp add: add_texts_def)

text \<open>
  C7, as amended. Construction resolves the id field to \<open>ids\<close> when the field names of
  the opened dataset include \<open>ids\<close>, and to \<open>id\<close> otherwise. Every later \<^verbatim>\<open>add_texts\<close>
  with a non-empty list of ids, on an instance with a provider, inserts with exactly
  one extra keyword, the resolved field name, holding those ids; on an instance
  without a provider it raises \<^verbatim>\<open>AttributeError\<close> and the engine is not called. An
  empty list of ids is the same call as no ids.
\<close>

theorem id_tensor_name_resolved_and_used:
  assumes "init L path token ef read_only batch workers verb exec kw w = (Inr self, w1)"
  shows "self_id_tensor_name self =
           (if ''ids'' \<in> set (vs_tensors L (vectorstore self) (w_engine w1)) then ''ids''
            else ''id'')
       \<and> (l \<noteq> [] \<longrightarrow>
            add_texts L self texts metadatas (Some l) kwargs w2 =
              (case self_embedding_function self of
                 None \<Rightarrow> (Inl (AttributeError ''embed_documents''), w2)
               | Some p \<Rightarrow>
                   let texts1 = (case metadatas of
                                   None \<Rightarrow> snd (py_list texts)
                                 | Some ms \<Rightarrow> texts);
                       args = \<lparr>a_text = texts1,
                               a_metadata =
                                 (case metadatas of
                                    None \<Rightarrow> replicate (length (fst (py_list texts))) Map.empty
                                  | Some ms \<Rightarrow> ms),
                               a_embedding_data = texts1, a_embedding_tensor = ''embedding'',
                               a_embedding_function = PyEmbedDocuments p, a_return_ids = True,
                               a_kwargs = [self_id_tensor_name self \<mapsto> PyStrList l]\<rparr>
                   in engine_call (Add args) (vs_add L (vectorstore self) args) w2))
       \<and> add_texts L self texts metadatas (Some []) kwargs w2 =
         add_texts L self texts metadatas None kwargs w2"
proof -
  have name: "self_id_tensor_name self = ''ids'' \<or> self_id_tensor_name self = ''id''"
    and resolved: "self_id_tensor_name self =
           (if ''ids'' \<in> set (vs_tensors L (vectorstore self) (w_engine w1)) then ''ids''
            else ''id'')"
    using assms
    by (auto simp: init_def engine_call_def Let_def split: if_splits prod.splits sum.splits)
  have used: "add_texts L self texts metadatas (Some l) kwargs w2 =
              (case self_embedding_function self of
                 None \<Rightarrow> (Inl (AttributeError ''embed_documents''), w2)
               | Some p \<Rightarrow>
                   let texts1 = (case metadatas of
                                   None \<Rightarrow> snd (py_list texts)
                                 | Some ms \<Rightarrow> texts);
                       args = \<lparr>a_text = texts1,
                               a_metadata =
                                 (case metadatas of
                                    None \<Rightarrow> replicate (length (fst (py_list texts))) Map.empty
                                  | Some ms \<Rightarrow> ms),
                               a_embedding_data = texts1, a_embedding_tensor = ''embedding'',
                               a_embedding_function = PyEmbedDocuments p, a_return_ids = True,
                               a_kwargs = [self_id_tensor_name self \<mapsto> PyStrList l]\<rparr>
                   in engine_call (Add args) (vs_add L (vectorstore self) args) w2)"
    if "l \<noteq> []"
    using that name
    by (auto simp: add_texts_def kwargs_get_def Let_def split: option.splits)
  have empty: "add_texts L self texts metadatas (Some []) kwargs w2 =
            add_texts L self texts metadatas None kwargs w2"
    by (simp add: add_texts_def)
  from resolved used empty show ?thesis by blast
qed

theorem id_tensor_name_resolved_and_used_witness:
  "self_id_tensor_name sample_store = ''id''
   \<and> add_texts sample_backend sample_store (TextList [''a'']) None (Some [''k1'']) Map.empty
        sample_world =
       (Inr [''k1''],
        \<lparr>w_engine = [''a''],
         w_calls = [Add \<lparr>a_text = TextList [''a''], a_metadata = [Map.empty],
                         a_embedding_data = TextList [''a''], a_embedding_tensor = ''embedding'',
                         a_embedding_function = PyEmbedDocuments sample_provider,
                         a_return_ids = True,
                         a_kwargs = [''id'' \<mapsto> PyStrList [''k1'']]\<rparr>]\<rparr>)
   \<and> add_texts sample_backend sample_store_without_provider (TextList [''a'']) None
        (Some [''k1'']) Map.empty sample_world =
       (Inl (AttributeError ''embed_documents''), sample_world)"
proof -
  note t = id_tensor_name_resolved_and_used
    [OF init_sample, where l = "[''k1'']" and texts = "TextList [''a'']"
       and metadatas = None and kwargs = Map.empty and ?w2.0 = sample_world]
  note u = id_tensor_name_resolved_and_used
    [OF init_sample_without_provider, where l = "[''k1'']" and texts = "TextList [''a'']"
       and metadatas = None and kwargs = Map.empty and ?w2.0 = sample_world]
  have name: "self_id_tensor_name sample_store = ''id''"
    using t [THEN conjunct1] by (simp add: sample_backend_def)
  have with_provider: "add_texts sample_backend sample_store (TextList [''a'']) None
        (Some [''k1'']) Map.empty sample_world =
       (Inr [''k1''],
        \<lparr>w_engine = [''a''],
         w_calls = [Add \<lparr>a_text = TextList [''a''], a_metadata = [Map.empty],
                         a_embedding_data = TextList [''a''], a_embedding_tensor = ''embedding'',
                         a_embedding_function = PyEmbedDocuments sample_provider,
                         a_return_ids = True,
                         a_kwargs = [''id'' \<mapsto> PyStrList [''k1'']]\<rparr>]\<rparr>)"
    using t [THEN conjunct2, THEN conjunct1]
    by (simp add: Let_def engine_call_def sample_store_def sample_backend_def sample_world_def)
  have without_provider: "add_texts sample_backend sample_store_without_provider
        (TextList [''a'']) None (Some [''k1'']) Map.empty sample_world =
       (Inl (AttributeError ''embed_documents''), sample_world)"
    using u [THEN conjunct2, THEN conjunct1]
    by (simp add: sample_store_without_provider_def)
  from name with_provider without_provider show ?thesis by blast
qed

text \<open>
  C7 as stated, that every call with ids from the caller passes them under the
  resolved name, fails twice. On the empty list \<^verbatim>\<open>if ids:\<close> is false, and the
  insertion carries no id field at all. On an instance built without a provider the
  call with ids raises \<^verbatim>\<open>AttributeError\<close>, and nothing is passed to the engine.
\<close>

theorem add_texts_empty_ids_not_passed:
  "w_calls (snd (add_texts sample_backend sample_store (TextList [''a'']) None (Some [])
                   Map.empty sample_world))
     = [Add \<lparr>a_text = TextList [''a''], a_metadata = [Map.empty],
             a_embedding_data = TextList [''a''], a_embedding_tensor = ''embedding'',
             a_embedding_function = PyEmbedDocuments sample_provider,
             a_return_ids = True, a_kwargs = Map.empty\<rparr>]
   \<and> w_calls (snd (add_texts sample_backend sample_store (TextList []) None (Some [])
                   Map.empty sample_world))
     = [Add \<lparr>a_text = TextList [], a_metadata = [], a_embedding_data = TextList [],
             a_embedding_tensor = ''embedding'',
             a_embedding_function = PyEmbedDocuments sample_provider,
             a_return_ids = True, a_kwargs = Map.empty\<rparr>]
   \<and> add_texts sample_backend sample_store_without_provider (TextList [''a'']) None
        (Some [''k1'']) Map.empty sample_world =
       (Inl (AttributeError ''embed_documents''), sample_world)"
  by (simp add: add_texts_def kwargs_get_def Let_def engine_call_def sample_store_def
        sample_store_without_provider_def sample_backend_def sample_world_def)

text \<open>
  C9. \<^verbatim>\<open>add_texts\<close> reads none of its extra keyword arguments: two calls that differ
  only in them are the same call, in result and in what the engine is asked. A call
  either leaves the engine alone (there is no provider, and it fails) or inserts once,
  with the \<^verbatim>\<open>embed_documents\<close> of the provider given at construction as the embedding
  function.
\<close>

theorem add_texts_ignores_kwargs:
  "add_texts L self texts metadatas ids kwargs w = add_texts L self texts metadatas ids kwargs' w
   \<and> (w_calls (snd (add_texts L self texts metadatas ids kwargs w)) = w_calls w
      \<or> (\<exists>p a. self_embedding_function self = Some p
              \<and> a_embedding_function a = PyEmbedDocuments p
              \<and> w_calls (snd (add_texts L self texts metadatas ids kwargs w))
                  = w_calls w @ [Add a]))"
proof -
  have same: "add_texts L self texts metadatas ids kwargs w
      = add_texts L self texts metadatas ids kwargs' w"
    by (simp add: add_texts_def)
  have used: "w_calls (snd (add_texts L self texts metadatas ids kwargs w)) = w_calls w
      \<or> (\<exists>p a. self_embedding_function self = Some p
              \<and> a_embedding_function a = PyEmbedDocuments p
              \<and> w_calls (snd (add_texts L self texts metadatas ids kwargs w))
                  = w_calls w @ [Add a])"
  proof (cases "self_embedding_function self")
    case None
    then show ?thesis
      by (simp add: add_texts_def kwargs_get_def Let_def split: option.splits)
  next
    case (Some p)
    then show ?thesis
      by (auto simp: add_texts_def kwargs_get_def Let_def engine_call_calls
               split: option.splits)
  qed
  from same used show ?thesis by blast
qed

theorem add_texts_ignores_kwargs_witness:
  "add_texts sample_backend sample_store (TextList [''a'']) None None
      [''embedding_function'' \<mapsto> PyCallable (\<lambda>q. PyList [])] sample_world
   = add_texts sample_backend sample_store (TextList [''a'']) None None Map.empty sample_world
   \<and> w_calls (snd (add_texts sample_backend sample_store (TextList [''a'']) None None
        [''embedding_function'' \<mapsto> PyCallable (\<lambda>q. PyList [])] sample_world))
     = [Add \<lparr>a_text = TextList [''a''], a_metadata = [Map.empty],
             a_embedding_data = TextList [''a''],
             a_embedding_tensor = ''embedding'',
             a_embedding_function = PyEmbedDocuments sample_provider,
             a_return_ids = True, a_kwargs = Map.empty\<rparr>]"
proof -
  note t = add_texts_ignores_kwargs
    [of sample_backend sample_store "TextList [''a'']" None None
       "[''embedding_function'' \<mapsto> PyCallable (\<lambda>q. PyList [])]" sample_world Map.empty]
  have calls: "w_calls (snd (add_texts sample_backend sample_store (TextList [''a'']) None None Map.empty
        sample_world))
     = [Add \<lparr>a_text = TextList [''a''], a_metadata = [Map.empty],
             a_embedding_data = TextList [''a''],
             a_embedding_tensor = ''embedding'',
             a_embedding_function = PyEmbedDocuments sample_provider,
             a_return_ids = True, a_kwargs = Map.empty\<rparr>]"
    by (simp add: add_texts_def kwargs_get_def Let_def engine_call_def sample_store_def
          sample_backend_def sample_world_def)
  from t [THEN conjunct1] calls show ?thesis by simp
qed

subsection \<open>similarity_search: the empty query string\<close>

text \<open>
  C10. \<^verbatim>\<open>similarity_search\<close> with the empty string as query, no embedding, and a
  provider on the instance raises neither the error for mutually exclusive arguments
  nor the error for a missing embedding source. It makes one search call on the
  engine, and that call carries no embedding; without a raw query among the keyword
  arguments it is the vector search with \<^verbatim>\<open>embedding=None\<close>.
\<close>

theorem similarity_search_empty_query:
  assumes "self_embedding_function self = Some p"
  shows "(\<exists>a. w_calls (snd (similarity_search L self (Some []) None k kwargs w))
                = w_calls w @ [Search a] \<and> search_embedding a = None)
     \<and> fst (similarity_search L self (Some []) None k kwargs w)
         \<noteq> Inl (ValueError QueryOrEmbeddingNotBoth)
     \<and> fst (similarity_search L self (Some []) None k kwargs w)
         \<noteq> Inl (ValueError EmbeddingOrFunctionNeeded)
     \<and> (\<not> py_truthy (kwargs_get (kw_rest kwargs) ''tql_query'') \<longrightarrow>
          w_calls (snd (similarity_search L self (Some []) None k kwargs w))
            = w_calls w @ [Search (EmbeddingSearch None k
                 (case kw_distance_metric kwargs of None \<Rightarrow> ''L2'' | Some d \<Rightarrow> d)
                 (kw_filter kwargs) (kw_exec_option kwargs)
                 [''embedding'', ''metadata'', ''text''])])"
proof (cases "py_truthy (kwargs_get (kw_rest kwargs) ''tql_query'')")
  case True
  let ?rs = "case kw_return_score kwargs of None \<Rightarrow> True | Some b \<Rightarrow> b"
  have eq: "similarity_search L self (Some []) None k kwargs w =
      u_search_tql L self (kwargs_get (kw_rest kwargs) ''tql_query'') (kw_exec_option kwargs) ?rs w"
    using True by (simp add: similarity_search_def u_search_def)
  have "search_embedding (TqlSearch (kwargs_get (kw_rest kwargs) ''tql_query'')
          (kw_exec_option kwargs)) = None" by simp
  then have calls: "\<exists>a. w_calls (snd (similarity_search L self (Some []) None k kwargs w))
                = w_calls w @ [Search a] \<and> search_embedding a = None"
    unfolding eq u_search_tql_calls by blast
  have errs: "fst (similarity_search L self (Some []) None k kwargs w)
         \<noteq> Inl (ValueError QueryOrEmbeddingNotBoth)"
     "fst (similarity_search L self (Some []) None k kwargs w)
         \<noteq> Inl (ValueError EmbeddingOrFunctionNeeded)"
    unfolding eq using u_search_tql_errors by fastforce+
  from calls errs True show ?thesis by blast
next
  case False
  let ?args = "EmbeddingSearch None k
                 (case kw_distance_metric kwargs of None \<Rightarrow> ''L2'' | Some d \<Rightarrow> d)
                 (kw_filter kwargs) (kw_exec_option kwargs)
                 [''embedding'', ''metadata'', ''text'']"
  obtain r w1 where ec: "engine_call (Search ?args) (vs_search L (vectorstore self) ?args) w = (r, w1)"
    by (cases "engine_call (Search ?args) (vs_search L (vectorstore self) ?args) w") simp
  have w1: "w_calls w1 = w_calls w @ [Search ?args]"
    using engine_call_calls [of "Search ?args" "vs_search L (vectorstore self) ?args" w] ec by simp
  have r: "\<exists>msg. e = EngineError msg" if "r = Inl e" for e
    using engine_call_errors [of "Search ?args" "vs_search L (vectorstore self) ?args" w e] ec that
    by simp
  have eq: "similarity_search L self (Some []) None k kwargs w =
     (case r of Inl e \<Rightarrow> (Inl e, w1)
      | Inr result \<Rightarrow>
          let docs = make_docs (r_text result)
                       (merged_metadatas (r_metadata result) (r_embedding result))
          in if (case kw_return_score kwargs of None \<Rightarrow> True | Some b \<Rightarrow> b) then
               (Inr (map (\<lambda>(doc, score). ScoredItem doc score) (zip docs (r_score result))), w1)
             else (Inr (map DocItem docs), w1))"
  proof -
    have "similarity_search L self (Some []) None k kwargs w =
        u_search L self (Some []) None (kw_embedding_function kwargs) k
          (case kw_distance_metric kwargs of None \<Rightarrow> ''L2'' | Some d \<Rightarrow> d)
          (kw_filter kwargs)
          (case kw_return_score kwargs of None \<Rightarrow> True | Some b \<Rightarrow> b)
          (kw_exec_option kwargs) (kw_rest kwargs) w"
      by (simp add: similarity_search_def)
    then show ?thesis
      unfolding u_search_empty_query [OF assms False] Let_def ec
      by (simp split: sum.splits)
  qed
  have calls: "w_calls (snd (similarity_search L self (Some []) None k kwargs w))
                = w_calls w @ [Search ?args]"
    unfolding eq using w1 by (simp add: Let_def split: sum.splits)
  have errs: "fst (similarity_search L self (Some []) None k kwargs w)
         \<noteq> Inl (ValueError QueryOrEmbeddingNotBoth)"
     "fst (similarity_search L self (Some []) None k kwargs w)
         \<noteq> Inl (ValueError EmbeddingOrFunctionNeeded)"
    unfolding eq using r by (auto simp: Let_def split: sum.splits)
  have "search_embedding ?args = None" by simp
  with calls have "\<exists>a. w_calls (snd (similarity_search L self (Some []) None k kwargs w))
                = w_calls w @ [Search a] \<and> search_embedding a = None" by blast
  with calls errs show ?thesis by blast
qed

theorem similarity_search_empty_query_witness:
  "w_calls (snd (similarity_search sample_backend sample_store (Some []) None 4
                   no_search_kwargs sample_world))
     = [Search (EmbeddingSearch None 4 ''L2'' None None [''embedding'', ''metadata'', ''text''])]
   \<and> fst (similarity_search sample_backend sample_store (Some []) None 4
            no_search_kwargs sample_world) \<noteq> Inl (ValueError QueryOrEmbeddingNotBoth)
   \<and> fst (similarity_search sample_backend sample_store (Some []) None 4
            no_search_kwargs sample_world) \<noteq> Inl (ValueError EmbeddingOrFunctionNeeded)"
proof -
  have p: "self_embedding_function sample_store = Some sample_provider"
    by (simp add: sample_store_def)
  note t = similarity_search_empty_query
    [OF p, of sample_backend 4 no_search_kwargs sample_world]
  have no_tql: "\<not> py_truthy (kwargs_get (kw_rest no_search_kwargs) ''tql_query'')"
    by (simp add: no_search_kwargs_def kwargs_get_def)
  have "w_calls (snd (similarity_search sample_backend sample_store (Some []) None 4
                   no_search_kwargs sample_world))
     = [Search (EmbeddingSearch None 4 ''L2'' None None [''embedding'', ''metadata'', ''text''])]"
    using t [THEN conjunct2, THEN conjunct2, THEN conjunct2] no_tql
    by (simp add: no_search_kwargs_def sample_world_def)
  with t show ?thesis by blast
qed

end
